theory Spec2Isabelle
  imports Complex_Main "HOL-Library.AList" "HOL-Library.Multiset"
begin

section \<open>JavaScript values\<close>

text \<open>
  FleetGuard is JavaScript: two Next.js API routes (\<^verbatim>\<open>pages/api/data.js\<close>, the
  file \<^verbatim>\<open>src/unnamed/part_000\<close>, and \<^verbatim>\<open>src/pages/api/siren.js\<close>) and a dashboard
  (\<^verbatim>\<open>src/app/components/home/page.jsx\<close>) whose function \<^verbatim>\<open>processFleetData\<close>
  aggregates the stored telemetry. Line numbers are those of these files.
  Request bodies and stored documents are JSON; they are modelled by the datatype
  below. Numbers are IEEE doubles in the program; here a finite number is the real
  it denotes, and the three non-finite values are separate. The addition and the
  division behind the average speed (lines 135-137 of the dashboard), whose
  rounding decides the digit printed, are parameters of the model; the difference
  of line 109 and the products and quotients by 1000 are taken exact.
  An object is the list of its own properties; reading a property takes the first
  entry of that name.
\<close>

datatype jsnum = Fin real | PosInf | NegInf | NaN

datatype jsval =
    JUndefined
  | JNull
  | JBool bool
  | JNum jsnum
  | JStr string
  | JArr "jsval list"
  | JObj "(string \<times> jsval) list"

datatype error = TypeError

text \<open>The conversion to boolean that \<^verbatim>\<open>!x\<close>, \<^verbatim>\<open>x || y\<close> and \<^verbatim>\<open>x ? a : b\<close> apply.\<close>

fun truthy :: "jsval \<Rightarrow> bool" where
  "truthy JUndefined = False"
| "truthy JNull = False"
| "truthy (JBool b) = b"
| "truthy (JNum (Fin x)) = (x \<noteq> 0)"
| "truthy (JNum NaN) = False"
| "truthy (JNum PosInf) = True"
| "truthy (JNum NegInf) = True"
| "truthy (JStr s) = (s \<noteq> [])"
| "truthy (JArr xs) = True"
| "truthy (JObj fs) = True"

text \<open>
  \<^verbatim>\<open>v.k\<close> for a key \<open>k\<close> that no prototype defines (all keys read by the
  program are of that kind: \<^verbatim>\<open>vehicleId\<close>, \<^verbatim>\<open>speed\<close>, \<^verbatim>\<open>gps\<close>, \<^verbatim>\<open>lat\<close>,
  \<^verbatim>\<open>lng\<close>, \<^verbatim>\<open>driver\<close>, \<^verbatim>\<open>id\<close>, \<^verbatim>\<open>name\<close>, \<^verbatim>\<open>timestamp\<close>, \<^verbatim>\<open>command\<close>):
  the own property of an object, \<^verbatim>\<open>undefined\<close> on any other value that has
  properties, and a \<^verbatim>\<open>TypeError\<close> on \<^verbatim>\<open>undefined\<close> and \<^verbatim>\<open>null\<close>.
\<close>

fun get_prop :: "jsval \<Rightarrow> string \<Rightarrow> jsval" where
  "get_prop (JObj fs) k = (case map_of fs k of Some v \<Rightarrow> v | None \<Rightarrow> JUndefined)"
| "get_prop v k = JUndefined"

definition member :: "jsval \<Rightarrow> string \<Rightarrow> error + jsval" where
  "member v k = (if v = JUndefined \<or> v = JNull then Inl TypeError else Inr (get_prop v k))"

text \<open>\<^verbatim>\<open>o.k = v\<close> on an object: the property is replaced where it stands, or added last.\<close>

fun set_prop :: "jsval \<Rightarrow> string \<Rightarrow> jsval \<Rightarrow> jsval" where
  "set_prop (JObj fs) k v = JObj (AList.update k v fs)"
| "set_prop w k v = w"

text \<open>
  The names every plain object inherits from \<^verbatim>\<open>Object.prototype\<close>. Reading one of
  them from an object that has no own property of that name yields a function (or,
  for \<^verbatim>\<open>__proto__\<close>, the prototype object), never \<^verbatim>\<open>undefined\<close>.
\<close>

definition inherited_keys :: "string list" where
  "inherited_keys =
     [''__proto__'', ''constructor'', ''hasOwnProperty'', ''isPrototypeOf'',
      ''propertyIsEnumerable'', ''toLocaleString'', ''toString'', ''valueOf'',
      ''__defineGetter__'', ''__defineSetter__'', ''__lookupGetter__'',
      ''__lookupSetter__'']"

definition inherited :: "string \<Rightarrow> bool" where
  "inherited k = (k \<in> set inherited_keys)"

section \<open>The aggregation: \<^verbatim>\<open>processFleetData\<close> (home/page.jsx, lines 75-159)\<close>

text \<open>
  A stored telemetry document as \<^verbatim>\<open>processFleetData\<close> reads it. The identifier is a
  string and \<^verbatim>\<open>timestamp\<close> and \<^verbatim>\<open>speed\<close> are finite numbers (the data model of
  the specification); \<^verbatim>\<open>alert\<close> and \<^verbatim>\<open>driver\<close> are whatever JSON the producer
  sent, \<^verbatim>\<open>JUndefined\<close> when the field is absent.
\<close>

record telemetry =
  vehicleId :: string
  driver :: jsval
  speed :: real
  alert :: jsval
  timestamp :: real

text \<open>
  The built-ins whose results depend on the locale, on the shortest decimal form
  of a double or on the rounding of double arithmetic; they are parameters of the
  model. The two formatters take the milliseconds given to \<^verbatim>\<open>new Date\<close>;
  \<^verbatim>\<open>numberToString\<close> is only used by \<^verbatim>\<open>toFixed\<close> for magnitudes from
  \<open>10\<^sup>2\<^sup>1\<close> on; \<open>fadd\<close> and \<open>fdiv\<close> are \<^verbatim>\<open>+\<close> and \<^verbatim>\<open>/\<close> on numbers.
\<close>

record builtins =
  toLocaleTimeString :: "real \<Rightarrow> string"
  toLocaleTimeStringHMS :: "real \<Rightarrow> string"
  numberToString :: "real \<Rightarrow> string"
  fadd :: "jsnum \<Rightarrow> jsnum \<Rightarrow> jsnum"
  fdiv :: "jsnum \<Rightarrow> jsnum \<Rightarrow> jsnum"

text \<open>Lines 93-96: \<^verbatim>\<open>alert === true || alert === "Sleeping" || alert === "true"\<close>.\<close>

definition isAlertRecord :: "telemetry \<Rightarrow> bool" where
  "isAlertRecord r =
     (alert r = JBool True \<or> alert r = JStr ''Sleeping'' \<or> alert r = JStr ''true'')"

text \<open>
  \<^verbatim>\<open>lastAlertTimes\<close> is a plain object (\<^verbatim>\<open>{}\<close>, line 89) used as a dictionary; the
  map holds its own properties. The assignment of line 98 creates or overwrites an
  own property, except under the key \<^verbatim>\<open>__proto__\<close>: there it calls the inherited
  setter, which ignores a value that is not an object.
\<close>

definition obj_assign :: "(string \<rightharpoonup> real) \<Rightarrow> string \<Rightarrow> real \<Rightarrow> (string \<rightharpoonup> real)" where
  "obj_assign m k v = (if k = ''__proto__'' then m else m(k \<mapsto> v))"

text \<open>First pass, lines 92-100.\<close>

fun first_pass :: "telemetry list \<Rightarrow> (string \<rightharpoonup> real) \<Rightarrow> (string \<rightharpoonup> real)" where
  "first_pass [] m = m"
| "first_pass (r # rs) m =
     first_pass rs (if isAlertRecord r then obj_assign m (vehicleId r) (timestamp r) else m)"

text \<open>What \<^verbatim>\<open>lastAlertTimes[k]\<close> reads: an own number, an inherited object, or nothing.\<close>

datatype slot = SNum real | SObject | SUndefined

definition obj_lookup :: "(string \<rightharpoonup> real) \<Rightarrow> string \<Rightarrow> slot" where
  "obj_lookup m k =
     (case m k of Some t \<Rightarrow> SNum t
      | None \<Rightarrow> if inherited k then SObject else SUndefined)"

text \<open>Line 108, \<^verbatim>\<open>lastAlertTimes[record.vehicleId] || 0\<close>.\<close>

fun or_zero :: "slot \<Rightarrow> slot" where
  "or_zero (SNum t) = (if t = 0 then SNum 0 else SNum t)"
| "or_zero SObject = SObject"
| "or_zero SUndefined = SNum 0"

text \<open>
  Line 109, \<^verbatim>\<open>latestSystemTimestamp - lastAlert\<close>; \<open>None\<close> is NaN (a function or
  a plain object converts to NaN).
\<close>

fun minus_slot :: "real \<Rightarrow> slot \<Rightarrow> real option" where
  "minus_slot T (SNum t) = Some (T - t)"
| "minus_slot T SObject = None"
| "minus_slot T SUndefined = None"

text \<open>Line 116, \<^verbatim>\<open>secondsSinceAlert < 300\<close>; a comparison with NaN is false.\<close>

fun lt300 :: "real option \<Rightarrow> bool" where
  "lt300 (Some s) = (s < 300)"
| "lt300 None = False"

text \<open>
  Lines 123-126: \<^verbatim>\<open>record.driver.id.replace(/\D/g, "").padEnd(8, "0").slice(0, 8)\<close>.
  Reading \<^verbatim>\<open>id\<close> of \<^verbatim>\<open>undefined\<close> or \<^verbatim>\<open>null\<close> throws, and so does calling
  \<^verbatim>\<open>replace\<close> on anything but a string (no other JSON value has that method).
\<close>

definition is_digit :: "char \<Rightarrow> bool" where
  "is_digit c = (c \<in> set ''0123456789'')"

definition padEnd8 :: "string \<Rightarrow> string" where
  "padEnd8 s = s @ replicate (8 - length s) CHR ''0''"

definition driverPhoneOf :: "telemetry \<Rightarrow> error + string" where
  "driverPhoneOf r =
     (case member (driver r) ''id'' of
        Inl e \<Rightarrow> Inl e
      | Inr i \<Rightarrow>
          (case i of
             JStr s \<Rightarrow> Inr (''+880 17'' @ take 8 (padEnd8 (filter is_digit s)))
           | _ \<Rightarrow> Inl TypeError))"

text \<open>The object built at lines 118-127 (\<open>latest\<close> is the spread \<^verbatim>\<open>...record\<close>).\<close>

record vehicle_state =
  latest :: telemetry
  formattedTime :: string
  isDrowsy :: bool
  secondsSinceAlert :: "real option"
  driverPhone :: string

definition vehicle_entry ::
  "builtins \<Rightarrow> real \<Rightarrow> (string \<rightharpoonup> real) \<Rightarrow> telemetry \<Rightarrow> error + vehicle_state" where
  "vehicle_entry B latestSystemTimestamp lastAlertTimes r =
     (let lastAlert = or_zero (obj_lookup lastAlertTimes (vehicleId r));
          secs = minus_slot latestSystemTimestamp lastAlert;
          drowsy = (alert r = JBool True \<or> alert r = JStr ''Sleeping'' \<or>
                    alert r = JStr ''true'' \<or> lt300 secs)
      in case driverPhoneOf r of
           Inl e \<Rightarrow> Inl e
         | Inr phone \<Rightarrow>
             Inr \<lparr>latest = r,
                  formattedTime = toLocaleTimeString B (timestamp r * 1000),
                  isDrowsy = drowsy,
                  secondsSinceAlert = secs,
                  driverPhone = phone\<rparr>)"

text \<open>
  Second pass, lines 103-128. \<^verbatim>\<open>vehicleMap\<close> is a \<^verbatim>\<open>Map\<close>: \<^verbatim>\<open>set\<close> replaces the
  value of a key where it stands and adds a new key last, which is
  \<^const>\<open>AList.update\<close>. An exception leaves the loop and the function.
\<close>

fun second_pass ::
  "builtins \<Rightarrow> real \<Rightarrow> (string \<rightharpoonup> real) \<Rightarrow> telemetry list \<Rightarrow>
   (string \<times> vehicle_state) list \<Rightarrow> error + (string \<times> vehicle_state) list" where
  "second_pass B T la [] vm = Inr vm"
| "second_pass B T la (r # rs) vm =
     (case vehicle_entry B T la r of
        Inl e \<Rightarrow> Inl e
      | Inr st \<Rightarrow> second_pass B T la rs (AList.update (vehicleId r) st vm))"

text \<open>
  \<^verbatim>\<open>x.toFixed(0)\<close>: the decimal digits of the integer nearest to \<open>x\<close>, the larger
  one at a tie, after the sign has been split off.
\<close>

fun digits_of :: "nat \<Rightarrow> string" where
  "digits_of n =
     (if n < 10 then [''0123456789'' ! n]
      else digits_of (n div 10) @ [''0123456789'' ! (n mod 10)])"

declare digits_of.simps [simp del]

definition toFixed0 :: "builtins \<Rightarrow> real \<Rightarrow> string" where
  "toFixed0 B x =
     (if 10 ^ 21 \<le> \<bar>x\<bar> then numberToString B x
      else if x < 0 then ''-'' @ digits_of (nat \<lfloor>- x + 1 / 2\<rfloor>)
      else digits_of (nat \<lfloor>x + 1 / 2\<rfloor>))"

text \<open>\<^verbatim>\<open>toFixed(0)\<close> on any number: a value that is not finite prints its name.\<close>

definition toFixed :: "builtins \<Rightarrow> jsnum \<Rightarrow> string" where
  "toFixed B n =
     (case n of
        Fin x \<Rightarrow> toFixed0 B x
      | PosInf \<Rightarrow> ''Infinity''
      | NegInf \<Rightarrow> ''-Infinity''
      | NaN \<Rightarrow> ''NaN'')"

text \<open>\<^verbatim>\<open>v.speed || 0\<close> on a finite number (line 135).\<close>

definition speed_or_zero :: "real \<Rightarrow> real" where
  "speed_or_zero x = (if x = 0 then 0 else x)"

record fleet_stats =
  totalVehicles :: nat
  drowsinessCount :: nat
  avgSpeed :: jsval
  totalHistoricalAlerts :: nat

record history_point =
  h_time :: string
  h_speed :: real
  h_isAlert :: nat

text \<open>\<^verbatim>\<open>xs.slice(-30)\<close>: the last 30 elements, all of them when there are fewer.\<close>

definition slice_last30 :: "'a list \<Rightarrow> 'a list" where
  "slice_last30 xs = drop (length xs - 30) xs"

text \<open>
  Lines 148-156, one point of the chart; the fields \<^verbatim>\<open>time\<close>, \<^verbatim>\<open>speed\<close> and
  \<^verbatim>\<open>isAlert\<close> are \<open>h_time\<close>, \<open>h_speed\<close> and \<open>h_isAlert\<close> of the record above.
\<close>

definition history_of :: "builtins \<Rightarrow> telemetry \<Rightarrow> history_point" where
  "history_of B d =
     \<lparr>h_time = toLocaleTimeStringHMS B (timestamp d * 1000),
      h_speed = speed d,
      h_isAlert = (if alert d = JBool True \<or> alert d = JStr ''Sleeping'' then 1 else 0)\<rparr>"

text \<open>
  The result. \<open>stats = None\<close> is the empty object \<^verbatim>\<open>{}\<close> that line 77 returns:
  none of the four fields exists.
\<close>

record fleet_output =
  stats :: "fleet_stats option"
  uniqueVehicles :: "vehicle_state list"
  history :: "history_point list"

text \<open>
  \<^verbatim>\<open>processFleetData\<close>. \<^verbatim>\<open>Array.prototype.sort\<close> is stable and the comparator
  \<^verbatim>\<open>a.timestamp - b.timestamp\<close> orders by timestamp, so line 80 is the stable
  \<^const>\<open>sort_key\<close>. The early return of lines 76-77 also covers a \<^verbatim>\<open>null\<close>
  argument, which has no counterpart in the list type. The local names
  \<open>vehicles\<close>, \<open>total\<close>, \<open>drowsy\<close>, \<open>avg\<close> and \<open>alerts\<close> stand for
  \<^verbatim>\<open>uniqueVehicles\<close>, \<^verbatim>\<open>totalVehicles\<close>, \<^verbatim>\<open>drowsinessCount\<close>, \<^verbatim>\<open>avgSpeed\<close> and
  \<^verbatim>\<open>totalHistoricalAlerts\<close>, which name the fields of the result.
\<close>

definition processFleetData :: "builtins \<Rightarrow> telemetry list \<Rightarrow> error + fleet_output" where
  "processFleetData B rawData =
     (if rawData = [] then Inr \<lparr>stats = None, uniqueVehicles = [], history = []\<rparr>
      else
        let sortedData = sort_key timestamp rawData;
            latestSystemTimestamp = timestamp (last sortedData);
            lastAlertTimes = first_pass sortedData Map.empty
        in case second_pass B latestSystemTimestamp lastAlertTimes sortedData [] of
             Inl e \<Rightarrow> Inl e
           | Inr vehicleMap \<Rightarrow>
               let vehicles = map snd vehicleMap;
                   total = length vehicles;
                   drowsy = length (filter isDrowsy vehicles);
                   totalSpeed = foldl (\<lambda>sum v. fadd B sum (Fin (speed_or_zero (speed (latest v)))))
                                  (Fin 0) vehicles;
                   avg = (if total > 0
                          then JStr (toFixed B (fdiv B totalSpeed (Fin (real total))))
                          else JNum (Fin 0));
                   alerts = length (filter (\<lambda>r. alert r = JBool True \<or> alert r = JStr ''Sleeping'')
                                      sortedData)
               in Inr \<lparr>stats = Some \<lparr>totalVehicles = total, drowsinessCount = drowsy,
                                      avgSpeed = avg, totalHistoricalAlerts = alerts\<rparr>,
                        uniqueVehicles = vehicles,
                        history = slice_last30 (map (history_of B) sortedData)\<rparr>)"

text \<open>What the dashboard reads from the result: the state of one vehicle.\<close>

definition vehicle_of :: "fleet_output \<Rightarrow> string \<Rightarrow> vehicle_state option" where
  "vehicle_of out v = find (\<lambda>s. vehicleId (latest s) = v) (uniqueVehicles out)"

text \<open>
  Readings of the result, as the dashboard makes them: \<^verbatim>\<open>v.isDrowsy\<close> of the entry
  of a vehicle, and \<^verbatim>\<open>stats.avgSpeed\<close> and \<^verbatim>\<open>stats.totalHistoricalAlerts\<close>, which
  are \<^verbatim>\<open>undefined\<close> on the empty object.
\<close>

definition isDrowsy_of :: "error + fleet_output \<Rightarrow> string \<Rightarrow> bool option" where
  "isDrowsy_of res v =
     (case res of Inl e \<Rightarrow> None | Inr out \<Rightarrow> map_option isDrowsy (vehicle_of out v))"

definition read_avgSpeed :: "fleet_output \<Rightarrow> jsval" where
  "read_avgSpeed out = (case stats out of None \<Rightarrow> JUndefined | Some s \<Rightarrow> avgSpeed s)"

definition read_totalHistoricalAlerts :: "fleet_output \<Rightarrow> nat option" where
  "read_totalHistoricalAlerts out = map_option totalHistoricalAlerts (stats out)"

section \<open>Telemetry ingestion: the POST branch of \<^verbatim>\<open>pages/api/data.js\<close> (part_000)\<close>

text \<open>
  The HTTP answer (status code and the fields of its JSON body), and what a POST
  leaves behind: the answer, the collection, and whether \<^verbatim>\<open>console.warn\<close> ran.
\<close>

record response =
  status :: nat
  message :: string
  insertedId :: "jsval option"

record post_result =
  resp :: response
  stored :: "jsval list"
  warned :: bool

definition falsy :: "jsval \<Rightarrow> bool" where
  "falsy v = (\<not> truthy v)"

definition isFinite :: "jsnum \<Rightarrow> bool" where
  "isFinite n = (case n of Fin x \<Rightarrow> True | PosInf \<Rightarrow> False | NegInf \<Rightarrow> False | NaN \<Rightarrow> False)"

text \<open>
  \<^verbatim>\<open>Number(v)\<close>. On the primitive values other than strings it is written out; on
  strings, arrays and objects it is the parameter \<open>conv\<close>, the built-in's parse of
  a numeric literal and its conversion of an object (\<open>None\<close>: the conversion
  throws).
\<close>

fun Number :: "(jsval \<Rightarrow> jsnum option) \<Rightarrow> jsval \<Rightarrow> jsnum option" where
  "Number conv JUndefined = Some NaN"
| "Number conv JNull = Some (Fin 0)"
| "Number conv (JBool b) = Some (Fin (if b then 1 else 0))"
| "Number conv (JNum n) = Some n"
| "Number conv v = conv v"

text \<open>\<^verbatim>\<open>!isFinite(x)\<close>.\<close>

definition notFinite :: "jsnum \<Rightarrow> bool" where
  "notFinite n = (\<not> isFinite n)"

definition internal_error :: response where
  "internal_error = \<lparr>status = 500, message = ''Internal Server Error'', insertedId = None\<rparr>"

text \<open>
  Lines 8-54. \<open>now\<close> is \<^verbatim>\<open>Date.now()\<close> in milliseconds; \<open>ins\<close> is the answer of
  the store to \<^verbatim>\<open>insertOne\<close>: the identifier it assigns, or \<open>None\<close> when the
  call throws. The collection is the list of the documents inserted so far.
\<close>

definition data_post ::
  "(jsval \<Rightarrow> jsnum option) \<Rightarrow> int \<Rightarrow> (jsval \<Rightarrow> jsval option) \<Rightarrow> jsval list \<Rightarrow> jsval \<Rightarrow> post_result" where
  "data_post conv now ins db data =
     (if falsy data \<or> falsy (get_prop data ''vehicleId'') \<or>
         get_prop data ''speed'' = JUndefined \<or> falsy (get_prop data ''gps'')
      then \<lparr>resp = \<lparr>status = 400, message = ''Missing required vehicle data fields.'',
                     insertedId = None\<rparr>,
            stored = db, warned = False\<rparr>
      else
        (case Number conv (get_prop (get_prop data ''gps'') ''lat'') of
           None \<Rightarrow> \<lparr>resp = internal_error, stored = db, warned = False\<rparr>
         | Some lat \<Rightarrow>
            (case Number conv (get_prop (get_prop data ''gps'') ''lng'') of
               None \<Rightarrow> \<lparr>resp = internal_error, stored = db, warned = False\<rparr>
             | Some lng \<Rightarrow>
                (if notFinite lat \<or> notFinite lng
                 then \<lparr>resp = \<lparr>status = 400, message = ''Invalid GPS values.'',
                                insertedId = None\<rparr>,
                       stored = db, warned = False\<rparr>
                 else
                   (let data1 = set_prop data ''gps''
                                  (JObj [(''lat'', JNum lat), (''lng'', JNum lng)]);
                        w = (falsy (get_prop data1 ''driver'') \<or>
                             falsy (get_prop (get_prop data1 ''driver'') ''id'') \<or>
                             falsy (get_prop (get_prop data1 ''driver'') ''name''));
                        data2 = (if falsy (get_prop data1 ''timestamp'')
                                 then set_prop data1 ''timestamp''
                                        (JNum (Fin (real_of_int now / 1000)))
                                 else data1)
                    in (case ins data2 of
                          None \<Rightarrow> \<lparr>resp = internal_error, stored = db, warned = w\<rparr>
                        | Some i \<Rightarrow>
                            \<lparr>resp = \<lparr>status = 201, message = ''Data saved successfully'',
                                     insertedId = Some i\<rparr>,
                             stored = db @ [data2], warned = w\<rparr>))))))"

text \<open>
  The dashboard fetches the stored documents and hands them to
  \<^verbatim>\<open>processFleetData\<close>; this is the view of a document that the record type
  \<^typ>\<open>telemetry\<close> gives, for a document whose identifier is a string and whose
  \<^verbatim>\<open>speed\<close> and \<^verbatim>\<open>timestamp\<close> are finite numbers.
\<close>

definition telemetry_of :: "jsval \<Rightarrow> telemetry option" where
  "telemetry_of d =
     (case get_prop d ''vehicleId'' of
        JStr v \<Rightarrow>
          (case get_prop d ''speed'' of
             JNum (Fin s) \<Rightarrow>
               (case get_prop d ''timestamp'' of
                  JNum (Fin t) \<Rightarrow>
                    Some \<lparr>vehicleId = v, driver = get_prop d ''driver'', speed = s,
                          alert = get_prop d ''alert'', timestamp = t\<rparr>
                | _ \<Rightarrow> None)
           | _ \<Rightarrow> None)
      | _ \<Rightarrow> None)"

section \<open>Command submission: the POST branch of \<^verbatim>\<open>pages/api/siren.js\<close>\<close>

definition allowedCommands :: "jsval list" where
  "allowedCommands = [JStr ''KILL_ENGINE'', JStr ''TRIGGER_ALARM'', JStr ''RESET'']"

text \<open>
  Lines 8-48. The destructuring of line 10 throws on a body that is \<^verbatim>\<open>undefined\<close>
  or \<^verbatim>\<open>null\<close>, which the \<^verbatim>\<open>catch\<close> answers with 500; \<^verbatim>\<open>includes\<close> compares
  with the three strings.
\<close>

definition siren_post ::
  "int \<Rightarrow> (jsval \<Rightarrow> jsval option) \<Rightarrow> jsval list \<Rightarrow> jsval \<Rightarrow> response \<times> jsval list" where
  "siren_post now ins db body =
     (case member body ''vehicleId'' of
        Inl e \<Rightarrow> (internal_error, db)
      | Inr vid \<Rightarrow>
          (let command = get_prop body ''command'';
               drv = get_prop body ''driver''
           in (if falsy vid \<or> falsy command
               then (\<lparr>status = 400, message = ''vehicleId and command are required.'',
                       insertedId = None\<rparr>, db)
               else if command \<notin> set allowedCommands
               then (\<lparr>status = 400,
                       message = ''Invalid command. Allowed: KILL_ENGINE, TRIGGER_ALARM, RESET'',
                       insertedId = None\<rparr>, db)
               else
                 (let payload = JObj [(''vehicleId'', vid), (''command'', command),
                                      (''driver'', if truthy drv then drv else JNull),
                                      (''timestamp'', JNum (Fin (real_of_int now / 1000))),
                                      (''status'', JStr ''PENDING'')]
                  in (case ins payload of
                        None \<Rightarrow> (internal_error, db)
                      | Some i \<Rightarrow>
                          (\<lparr>status = 201, message = ''Siren command stored successfully'',
                            insertedId = Some i\<rparr>, db @ [payload]))))))"

section \<open>Acknowledgments: the reducer of \<^verbatim>\<open>Dashboard\<close> (home/page.jsx, lines 224-237)\<close>

text \<open>
  The state is an object from vehicle identifiers to expiry instants in
  milliseconds; the map holds its own properties. Both the spread with a computed
  key and \<^verbatim>\<open>Object.fromEntries\<close> define own properties under every key.
  \<open>now\<close> is \<^verbatim>\<open>Date.now()\<close> when the reducer runs.
\<close>

datatype action = ACKNOWLEDGE string | CLEANUP | OTHER

definition ack_reducer :: "int \<Rightarrow> (string \<rightharpoonup> int) \<Rightarrow> action \<Rightarrow> (string \<rightharpoonup> int)" where
  "ack_reducer now state a =
     (case a of
        ACKNOWLEDGE v \<Rightarrow> state(v \<mapsto> now + 5 * 60 * 1000)
      | CLEANUP \<Rightarrow>
          (\<lambda>k. case state k of
                  None \<Rightarrow> None
                | Some expiry \<Rightarrow> if expiry > now then Some expiry else None)
      | OTHER \<Rightarrow> state)"

text \<open>
  The read, \<^verbatim>\<open>acknowledged[v.vehicleId]\<close> used as a condition (lines 542, 544, 559
  and 592): the truth value of the stored number, or of what the object inherits
  under that name. No instant enters it.
\<close>

definition acknowledged_read :: "(string \<rightharpoonup> int) \<Rightarrow> string \<Rightarrow> bool" where
  "acknowledged_read state v =
     (case state v of Some expiry \<Rightarrow> expiry \<noteq> 0 | None \<Rightarrow> inherited v)"

text \<open>Actions dispatched one after the other, each with the instant at which it runs.\<close>

fun dispatch_all :: "(string \<rightharpoonup> int) \<Rightarrow> (int \<times> action) list \<Rightarrow> (string \<rightharpoonup> int)" where
  "dispatch_all state [] = state"
| "dispatch_all state ((now, a) # evs) = dispatch_all (ack_reducer now state a) evs"

section \<open>Notions of the specification\<close>

text \<open>
  The most recent record of a vehicle: the last of its records in the order of
  line 80 (by timestamp, records of equal timestamp in the order of the input).
\<close>

definition latest_record :: "telemetry list \<Rightarrow> string \<Rightarrow> telemetry" where
  "latest_record rs v = last (filter (\<lambda>r. vehicleId r = v) (sort_key timestamp rs))"

text \<open>The reference instant of a batch, and the instants of a vehicle's alert records.\<close>

definition T_max :: "telemetry list \<Rightarrow> real" where
  "T_max rs = Max (timestamp ` set rs)"

definition alert_times :: "telemetry list \<Rightarrow> string \<Rightarrow> real set" where
  "alert_times rs v =
     timestamp ` set (filter (\<lambda>r. vehicleId r = v \<and> isAlertRecord r) rs)"








section \<open>Sample inputs\<close>

text \<open>A record with complete driver information, as the producer script posts it.\<close>

definition sample :: "string \<Rightarrow> jsval \<Rightarrow> real \<Rightarrow> real \<Rightarrow> telemetry" where
  "sample v a s t =
     \<lparr>vehicleId = v,
      driver = JObj [(''id'', JStr ''DRV007''), (''name'', JStr ''Karimul Driver'')],
      speed = s, alert = a, timestamp = t\<rparr>"

definition bus12_gps :: jsval where
  "bus12_gps = JObj [(''lat'', JNum (Fin 23.8103)), (''lng'', JNum (Fin 90.4125))]"

text \<open>A telemetry payload without \<^verbatim>\<open>driver\<close>, the document stored for it, and its record.\<close>

definition no_driver_payload :: jsval where
  "no_driver_payload =
     JObj [(''vehicleId'', JStr ''BUS12''), (''speed'', JNum (Fin 40)), (''gps'', bus12_gps)]"

definition no_driver_doc :: "int \<Rightarrow> jsval" where
  "no_driver_doc now =
     JObj [(''vehicleId'', JStr ''BUS12''), (''speed'', JNum (Fin 40)), (''gps'', bus12_gps),
           (''timestamp'', JNum (Fin (real_of_int now / 1000)))]"

definition no_driver_record :: "int \<Rightarrow> telemetry" where
  "no_driver_record now =
     \<lparr>vehicleId = ''BUS12'', driver = JUndefined, speed = 40, alert = JUndefined,
      timestamp = real_of_int now / 1000\<rparr>"

text \<open>A telemetry payload without \<^verbatim>\<open>speed\<close>, and one whose \<^verbatim>\<open>timestamp\<close> is 0.\<close>

definition no_speed_payload :: jsval where
  "no_speed_payload = JObj [(''vehicleId'', JStr ''BUS12''), (''gps'', bus12_gps)]"

definition zero_timestamp_payload :: jsval where
  "zero_timestamp_payload =
     JObj [(''vehicleId'', JStr ''BUS12''), (''speed'', JNum (Fin 40)), (''gps'', bus12_gps),
           (''timestamp'', JNum (Fin 0))]"

text \<open>Two command submissions, the second with a timestamp of the client's.\<close>

definition honk_body :: jsval where
  "honk_body = JObj [(''vehicleId'', JStr ''BUS12''), (''command'', JStr ''HONK'')]"

definition alarm_body :: jsval where
  "alarm_body =
     JObj [(''vehicleId'', JStr ''BUS12''), (''command'', JStr ''TRIGGER_ALARM''),
           (''timestamp'', JNum (Fin 5))]"


text \<open>A store that accepts every insert and answers with the same identifier.\<close>

definition accepting_store :: "jsval \<Rightarrow> jsval option" where
  "accepting_store d = Some (JStr ''65f0c0ffee'')"


section \<open>Evaluation\<close>

lemmas fleet_defs =
  processFleetData_def vehicle_entry_def driverPhoneOf_def member_def obj_lookup_def
  obj_assign_def isAlertRecord_def inherited_def inherited_keys_def history_of_def
  slice_last30_def speed_or_zero_def toFixed_def toFixed0_def digits_of.simps padEnd8_def
  is_digit_def
  vehicle_of_def isDrowsy_of_def read_avgSpeed_def read_totalHistoricalAlerts_def
  sample_def no_driver_record_def Let_def

lemmas route_defs =
  data_post_def siren_post_def falsy_def isFinite_def notFinite_def internal_error_def
  member_def allowedCommands_def telemetry_of_def bus12_gps_def no_driver_payload_def
  no_driver_doc_def no_speed_payload_def zero_timestamp_payload_def honk_body_def
  alarm_body_def accepting_store_def Let_def


section \<open>The two passes\<close>

lemma vehicle_entry_latest: "vehicle_entry B T la r = Inr st \<Longrightarrow> latest st = r"
  by (auto simp: vehicle_entry_def Let_def split: sum.splits)

lemma second_pass_keys:
  "second_pass B T la rs vm = Inr vm' \<Longrightarrow>
     set (map fst vm') = set (map fst vm) \<union> vehicleId ` set rs \<and>
     (distinct (map fst vm) \<longrightarrow> distinct (map fst vm'))"
proof (induction rs arbitrary: vm)
  case Nil
  then show ?case by simp
next
  case (Cons r rs)
  from Cons.prems obtain st where st: "vehicle_entry B T la r = Inr st"
    and rest: "second_pass B T la rs (AList.update (vehicleId r) st vm) = Inr vm'"
    by (auto split: sum.splits)
  from Cons.IH [OF rest] show ?case
    by (auto simp: update_keys distinct_update split: if_splits)
qed

lemma second_pass_map_of:
  "second_pass B T la rs vm = Inr vm' \<Longrightarrow>
     map_of vm' v =
       (if \<exists>r\<in>set rs. vehicleId r = v
        then (case vehicle_entry B T la (last (filter (\<lambda>r. vehicleId r = v) rs)) of
                Inl e \<Rightarrow> None | Inr st \<Rightarrow> Some st)
        else map_of vm v)"
proof (induction rs arbitrary: vm)
  case Nil
  then show ?case by simp
next
  case (Cons r rs)
  from Cons.prems obtain st where st: "vehicle_entry B T la r = Inr st"
    and rest: "second_pass B T la rs (AList.update (vehicleId r) st vm) = Inr vm'"
    by (auto split: sum.splits)
  show ?case
  proof (cases "\<exists>r'\<in>set rs. vehicleId r' = v")
    case True
    then have "filter (\<lambda>r. vehicleId r = v) rs \<noteq> []"
      by (auto simp: filter_empty_conv)
    with True Cons.IH [OF rest] show ?thesis by simp
  next
    case False
    then have "filter (\<lambda>r. vehicleId r = v) rs = []"
      by (auto simp: filter_empty_conv)
    with False Cons.IH [OF rest] st show ?thesis
      by (simp add: update_conv')
  qed
qed

lemma second_pass_entry:
  assumes "second_pass B T la rs [] = Inr vm" and "v \<in> vehicleId ` set rs"
  shows "\<exists>st. map_of vm v = Some st \<and>
              vehicle_entry B T la (last (filter (\<lambda>r. vehicleId r = v) rs)) = Inr st"
proof -
  from second_pass_keys [OF assms(1)] assms(2) have "v \<in> fst ` set vm" by simp
  then obtain st where st: "map_of vm v = Some st"
    by (metis map_of_eq_None_iff not_Some_eq)
  from assms(2) have "\<exists>r\<in>set rs. vehicleId r = v" by auto
  with second_pass_map_of [OF assms(1), of v] st show ?thesis
    by (auto split: sum.splits)
qed

lemma second_pass_invariant:
  "second_pass B T la rs vm = Inr vm' \<Longrightarrow>
     \<forall>k s. map_of vm k = Some s \<longrightarrow> vehicleId (latest s) = k \<Longrightarrow>
     map_of vm' k = Some s \<Longrightarrow> vehicleId (latest s) = k"
proof (induction rs arbitrary: vm)
  case Nil
  then show ?case by simp
next
  case (Cons r rs)
  from Cons.prems(1) obtain st where st: "vehicle_entry B T la r = Inr st"
    and rest: "second_pass B T la rs (AList.update (vehicleId r) st vm) = Inr vm'"
    by (auto split: sum.splits)
  have "\<forall>k s. map_of (AList.update (vehicleId r) st vm) k = Some s \<longrightarrow> vehicleId (latest s) = k"
    using Cons.prems(2) vehicle_entry_latest [OF st]
    by (auto simp: update_conv')
  from Cons.IH [OF rest this Cons.prems(3)] show ?case .
qed

lemma find_values:
  assumes "distinct (map fst vm)" and "\<forall>k s. map_of vm k = Some s \<longrightarrow> key s = k"
  shows "find (\<lambda>s. key s = v) (map snd vm) = map_of vm v"
  using assms
proof (induction vm)
  case Nil
  then show ?case by simp
next
  case (Cons p vm)
  obtain k s where p: "p = (k, s)" by (cases p)
  from Cons.prems(2) p have ks: "key s = k" by simp
  have rest: "\<forall>k' s'. map_of vm k' = Some s' \<longrightarrow> key s' = k'"
  proof (intro allI impI)
    fix k' s' assume m: "map_of vm k' = Some s'"
    then have "k' \<in> fst ` set vm" by (metis map_of_eq_None_iff option.distinct(1))
    with Cons.prems(1) p have "k' \<noteq> k" by auto
    with Cons.prems(2) p m show "key s' = k'" by simp 
  qed
  from Cons.prems(1) have "distinct (map fst vm)" by simp
  from Cons.IH [OF this rest] ks p show ?case by auto
qed


lemma first_pass_lookup:
  "first_pass rs m k =
     (if k \<noteq> ''__proto__'' \<and> (\<exists>r\<in>set rs. vehicleId r = k \<and> isAlertRecord r)
      then Some (timestamp (last (filter (\<lambda>r. vehicleId r = k \<and> isAlertRecord r) rs)))
      else m k)"
proof (induction rs arbitrary: m)
  case Nil
  then show ?case by simp
next
  case (Cons r rs)
  show ?case
  proof (cases "\<exists>r'\<in>set rs. vehicleId r' = k \<and> isAlertRecord r'")
    case True
    then have "filter (\<lambda>r. vehicleId r = k \<and> isAlertRecord r) rs \<noteq> []"
      by (auto simp: filter_empty_conv)
    with True show ?thesis by (auto simp: Cons.IH obj_assign_def)
  next
    case False
    then have "filter (\<lambda>r. vehicleId r = k \<and> isAlertRecord r) rs = []"
      by (auto simp: filter_empty_conv)
    with False show ?thesis by (auto simp: Cons.IH obj_assign_def)
  qed
qed

lemma sorted_last_Max:
  fixes f :: "'a \<Rightarrow> real"
  assumes "sorted (map f xs)" and "xs \<noteq> []"
  shows "f (last xs) = Max (f ` set xs)"
proof -
  have "\<forall>x\<in>set xs. f x \<le> f (last xs)"
    using assms
  proof (induction xs)
    case Nil
    then show ?case by simp
  next
    case (Cons a xs)
    then show ?case by (cases "xs = []") auto
  qed
  moreover have "last xs \<in> set xs" using assms(2) by simp
  ultimately show ?thesis
    by (intro Max_eqI [symmetric]) auto
qed

text \<open>
  The latch as \<^verbatim>\<open>processFleetData\<close> computes it, for every batch on which it
  returns and every vehicle of the batch: the entry of the vehicle is built from
  its most recent record, and it is drowsy exactly when that record is an alert
  record or the last alert of the vehicle is less than 300 seconds before the
  newest record of the batch, where a vehicle without an alert record counts as
  alerted at instant 0, and the identifier \<^verbatim>\<open>__proto__\<close> as never alerted.
\<close>

lemma latch_rule:
  assumes ok: "processFleetData B rs = Inr out" and v: "v \<in> vehicleId ` set rs"
  shows "\<exists>st. vehicle_of out v = Some st \<and> latest st = latest_record rs v \<and>
           (isDrowsy st \<longleftrightarrow>
              isAlertRecord (latest_record rs v) \<or>
              (if v = ''__proto__'' then False
               else if alert_times rs v = {} then \<not> inherited v \<and> T_max rs < 300
               else T_max rs - Max (alert_times rs v) < 300))"
proof -
  define srt where "srt = sort_key timestamp rs"
  define T where "T = timestamp (last srt)"
  define la where "la = first_pass srt Map.empty"
  define r where "r = latest_record rs v"
  from v have ne: "rs \<noteq> []" by auto
  from ok ne obtain vm where vm: "second_pass B T la srt [] = Inr vm"
    and uv: "uniqueVehicles out = map snd vm"
    by (auto simp: processFleetData_def Let_def srt_def T_def la_def split: sum.splits)
  have srt_sorted: "sorted (map timestamp srt)" by (simp add: srt_def)
  have srt_set: "set srt = set rs" by (simp add: srt_def)
  have "srt \<noteq> []" using ne srt_set by auto
  with srt_sorted have T: "T = T_max rs"
    unfolding T_def T_max_def by (simp add: sorted_last_Max srt_set)
  from second_pass_keys [OF vm] have dist: "distinct (map fst vm)" by simp
  from v have ex: "\<exists>r\<in>set srt. vehicleId r = v" by (auto simp: srt_set)
  then have fne: "filter (\<lambda>r. vehicleId r = v) srt \<noteq> []" by (auto simp: filter_empty_conv)
  have r_last: "r = last (filter (\<lambda>r. vehicleId r = v) srt)"
    by (simp add: r_def latest_record_def srt_def)
  have "r \<in> set (filter (\<lambda>r. vehicleId r = v) srt)"
    unfolding r_last using fne by (rule last_in_set)
  then have rv: "vehicleId r = v" by simp
  from second_pass_entry [OF vm, of v] ex
  obtain st where entry: "vehicle_entry B T la r = Inr st" and mv: "map_of vm v = Some st"
    by (auto simp: r_last)
  have inv: "\<forall>k s. map_of vm k = Some s \<longrightarrow> vehicleId (latest s) = k"
    using second_pass_invariant [OF vm] by auto
  have found: "vehicle_of out v = Some st"
    unfolding vehicle_of_def uv using find_values [OF dist inv, of v] mv by simp
  have lat: "latest st = r" using entry by (rule vehicle_entry_latest)
  have drowsy: "isDrowsy st \<longleftrightarrow> isAlertRecord r \<or> lt300 (minus_slot T (or_zero (obj_lookup la v)))"
    using entry by (auto simp: vehicle_entry_def Let_def isAlertRecord_def rv split: sum.splits)
  let ?P = "\<lambda>r. vehicleId r = v \<and> isAlertRecord r"
  have at: "alert_times rs v = timestamp ` set (filter ?P srt)"
    by (auto simp: alert_times_def srt_set)
  have look: "la v = (if v \<noteq> ''__proto__'' \<and> alert_times rs v \<noteq> {}
                      then Some (Max (alert_times rs v)) else None)"
  proof (cases "filter ?P srt = []")
    case True
    then have "alert_times rs v = {}" by (simp add: at)
    moreover from True have "\<not> (\<exists>r\<in>set srt. ?P r)" by (auto simp: filter_empty_conv)
    ultimately show ?thesis unfolding la_def first_pass_lookup [of srt Map.empty v] by auto
  next
    case False
    then have ex2: "\<exists>r\<in>set srt. ?P r" by (auto simp: filter_empty_conv)
    have "sorted (map timestamp (filter ?P srt))" using srt_sorted by (rule sorted_filter)
    from sorted_last_Max [OF this False]
    have "timestamp (last (filter ?P srt)) = Max (alert_times rs v)" by (simp add: at)
    moreover from ex2 have "alert_times rs v \<noteq> {}" by (auto simp: at)
    ultimately show ?thesis unfolding la_def first_pass_lookup [of srt Map.empty v] using ex2 by auto
  qed
  have "lt300 (minus_slot T (or_zero (obj_lookup la v))) \<longleftrightarrow>
          (if v = ''__proto__'' then False
           else if alert_times rs v = {} then \<not> inherited v \<and> T_max rs < 300
           else T_max rs - Max (alert_times rs v) < 300)"
    by (auto simp: obj_lookup_def look T inherited_def inherited_keys_def)
  with drowsy found lat show ?thesis by (auto simp: r_def)
qed







section \<open>The average speed\<close>
















section \<open>The routes and the acknowledgments\<close>

lemma dispatch_all_lookup:
  "\<forall>e\<in>set evs. snd e \<noteq> ACKNOWLEDGE v \<Longrightarrow>
   dispatch_all state evs v =
     (case state v of None \<Rightarrow> None
      | Some expiry \<Rightarrow>
          if \<forall>e\<in>set evs. snd e = CLEANUP \<longrightarrow> fst e < expiry then Some expiry else None)"
proof (induction evs arbitrary: state)
  case Nil
  then show ?case by (simp split: option.splits)
next
  case (Cons e evs)
  obtain n a where e: "e = (n, a)" by (cases e)
  from Cons.prems e have a: "a \<noteq> ACKNOWLEDGE v"
    and rest: "\<forall>e\<in>set evs. snd e \<noteq> ACKNOWLEDGE v" by auto
  have step: "ack_reducer n state a v =
                (case state v of None \<Rightarrow> None
                 | Some expiry \<Rightarrow> if a = CLEANUP \<longrightarrow> n < expiry then Some expiry else None)"
    using a by (cases a) (auto simp: ack_reducer_def split: option.splits)
  show ?case
    unfolding e dispatch_all.simps Cons.IH [OF rest] step
    by (auto split: option.splits)
qed

lemma ack_read:
  assumes "0 \<le> t" and "\<forall>e\<in>set evs. snd e \<noteq> ACKNOWLEDGE v"
  shows "ack_reducer t state (ACKNOWLEDGE v) v = Some (t + 300000) \<and>
         (acknowledged_read (dispatch_all (ack_reducer t state (ACKNOWLEDGE v)) evs) v \<longleftrightarrow>
            inherited v \<or> (\<forall>e\<in>set evs. snd e = CLEANUP \<longrightarrow> fst e < t + 300000))"
proof -
  have s: "ack_reducer t state (ACKNOWLEDGE v) v = Some (t + 300000)"
    by (simp add: ack_reducer_def)
  show ?thesis
    using assms(1) by (auto simp: dispatch_all_lookup [OF assms(2)] s acknowledged_read_def)
qed

lemma truthy_prop_obj: "truthy (get_prop d k) \<Longrightarrow> \<exists>fs. d = JObj fs"
  by (cases d) auto

lemma get_set_prop:
  "get_prop (set_prop (JObj fs) k v) k' = (if k' = k then v else get_prop (JObj fs) k')"
  by (simp add: update_conv')

lemma data_post_missing:
  "(status (resp (data_post conv now ins db data)) = 400 \<and>
    message (resp (data_post conv now ins db data)) = ''Missing required vehicle data fields.'') \<longleftrightarrow>
   (falsy data \<or> falsy (get_prop data ''vehicleId'') \<or> get_prop data ''speed'' = JUndefined \<or>
    falsy (get_prop data ''gps''))"
  by (auto simp: data_post_def internal_error_def Let_def split: option.splits)

lemma data_post_accepts:
  assumes "truthy (get_prop data ''vehicleId'')" and "get_prop data ''speed'' \<noteq> JUndefined"
    and "truthy (get_prop data ''gps'')"
    and "Number conv (get_prop (get_prop data ''gps'') ''lat'') = Some (Fin lat)"
    and "Number conv (get_prop (get_prop data ''gps'') ''lng'') = Some (Fin lng)"
    and "\<forall>d. ins d \<noteq> None"
  shows "\<exists>doc. data_post conv now ins db data =
           \<lparr>resp = \<lparr>status = 201, message = ''Data saved successfully'', insertedId = ins doc\<rparr>,
            stored = db @ [doc],
            warned = (falsy (get_prop data ''driver'') \<or>
                      falsy (get_prop (get_prop data ''driver'') ''id'') \<or>
                      falsy (get_prop (get_prop data ''driver'') ''name''))\<rparr> \<and>
         get_prop doc ''gps'' = JObj [(''lat'', JNum (Fin lat)), (''lng'', JNum (Fin lng))] \<and>
         get_prop doc ''timestamp'' =
           (if falsy (get_prop data ''timestamp'') then JNum (Fin (real_of_int now / 1000))
            else get_prop data ''timestamp'') \<and>
         (\<forall>k. k \<noteq> ''gps'' \<longrightarrow> k \<noteq> ''timestamp'' \<longrightarrow> get_prop doc k = get_prop data k)"
proof -
  from assms(1) obtain fs where d: "data = JObj fs" by (auto dest: truthy_prop_obj)
  have t: "truthy data" by (simp add: d)
  define data1 where "data1 = set_prop data ''gps'' (JObj [(''lat'', JNum (Fin lat)), (''lng'', JNum (Fin lng))])"
  define data2 where "data2 = (if falsy (get_prop data1 ''timestamp'')
                           then set_prop data1 ''timestamp'' (JNum (Fin (real_of_int now / 1000)))
                           else data1)"
  from assms(6) obtain i where i: "ins data2 = Some i" by auto
  have "data_post conv now ins db data =
           \<lparr>resp = \<lparr>status = 201, message = ''Data saved successfully'', insertedId = ins data2\<rparr>,
            stored = db @ [data2],
            warned = (falsy (get_prop data1 ''driver'') \<or>
                      falsy (get_prop (get_prop data1 ''driver'') ''id'') \<or>
                      falsy (get_prop (get_prop data1 ''driver'') ''name''))\<rparr>"
    using assms(1-5) t i
    by (auto simp: data_post_def falsy_def isFinite_def notFinite_def Let_def data1_def data2_def)
  moreover have "get_prop data1 k = (if k = ''gps'' then JObj [(''lat'', JNum (Fin lat)), (''lng'', JNum (Fin lng))] else get_prop data k)" for k
    unfolding data1_def d by (simp add: update_conv')
  moreover have "get_prop data2 k = (if k = ''timestamp'' \<and> falsy (get_prop data1 ''timestamp'') then JNum (Fin (real_of_int now / 1000)) else get_prop data1 k)" for k
    unfolding data2_def data1_def d by (simp add: update_conv')
  ultimately show ?thesis
    by (intro exI [of _ data2]) simp
qed


text \<open>
  The rule of the command route: a submission whose \<^verbatim>\<open>command\<close> is absent or outside the allow-list leaves
  the collection as it was and is answered with a 400 (with 500 when the body
  itself is \<^verbatim>\<open>undefined\<close> or \<^verbatim>\<open>null\<close>, so that line 10 throws); whenever the
  collection changes, exactly one record was added, its command is in the
  allow-list, its \<^verbatim>\<open>status\<close> is \<^verbatim>\<open>PENDING\<close> and its \<^verbatim>\<open>timestamp\<close> is the
  server's clock, whatever the body carries; and a submission with an allowed
  command and a truthy \<^verbatim>\<open>vehicleId\<close> is stored when the store accepts inserts.
\<close>

lemma siren_post_rule:
  assumes "siren_post now ins db body = (r, db')"
  shows "(get_prop body ''command'' \<notin> set allowedCommands \<longrightarrow>
            db' = db \<and>
            (if body = JUndefined \<or> body = JNull then status r = 500 else status r = 400)) \<and>
         (db' \<noteq> db \<longrightarrow>
            get_prop body ''command'' \<in> set allowedCommands \<and> status r = 201 \<and>
            db' = db @ [JObj [(''vehicleId'', get_prop body ''vehicleId''),
                              (''command'', get_prop body ''command''),
                              (''driver'', if truthy (get_prop body ''driver'')
                                           then get_prop body ''driver'' else JNull),
                              (''timestamp'', JNum (Fin (real_of_int now / 1000))),
                              (''status'', JStr ''PENDING'')]]) \<and>
         (get_prop body ''command'' \<in> set allowedCommands \<and>
          truthy (get_prop body ''vehicleId'') \<and> (\<forall>d. ins d \<noteq> None) \<longrightarrow> db' \<noteq> db)"
  using assms
  by (auto simp: siren_post_def member_def falsy_def internal_error_def Let_def
                 allowedCommands_def
           split: if_splits option.splits)

text \<open>
  Two submissions: \<^verbatim>\<open>HONK\<close> is answered with 400 and stores nothing;
  \<^verbatim>\<open>TRIGGER_ALARM\<close> sent with a timestamp of the client's (5) is stored as
  \<^verbatim>\<open>PENDING\<close> with the server's instant.
\<close>

lemma siren_post_examples:
  "siren_post 1700000000000 accepting_store [] honk_body =
     (\<lparr>status = 400,
        message = ''Invalid command. Allowed: KILL_ENGINE, TRIGGER_ALARM, RESET'',
        insertedId = None\<rparr>, []) \<and>
   get_prop honk_body ''command'' \<notin> set allowedCommands \<and>
   get_prop alarm_body ''command'' \<in> set allowedCommands \<and>
   truthy (get_prop alarm_body ''vehicleId'') \<and>
   (\<forall>d. accepting_store d \<noteq> None) \<and>
   get_prop alarm_body ''timestamp'' = JNum (Fin 5) \<and>
   snd (siren_post 1700000000000 accepting_store [] alarm_body) =
     [JObj [(''vehicleId'', JStr ''BUS12''), (''command'', JStr ''TRIGGER_ALARM''),
            (''driver'', JNull), (''timestamp'', JNum (Fin 1700000000)),
            (''status'', JStr ''PENDING'')]]"
proof -
  have h: "siren_post 1700000000000 accepting_store [] honk_body =
     (\<lparr>status = 400,
        message = ''Invalid command. Allowed: KILL_ENGINE, TRIGGER_ALARM, RESET'',
        insertedId = None\<rparr>, [])"
    by (simp add: route_defs)
  obtain r db' where a: "siren_post 1700000000000 accepting_store [] alarm_body = (r, db')"
    by (cases "siren_post 1700000000000 accepting_store [] alarm_body")
  have c: "get_prop alarm_body ''command'' \<in> set allowedCommands \<and>
           truthy (get_prop alarm_body ''vehicleId'') \<and> (\<forall>d. accepting_store d \<noteq> None)"
    by (simp add: route_defs)
  from siren_post_rule [OF a] c
  have "db' = [] @ [JObj [(''vehicleId'', get_prop alarm_body ''vehicleId''),
                          (''command'', get_prop alarm_body ''command''),
                          (''driver'', if truthy (get_prop alarm_body ''driver'')
                                       then get_prop alarm_body ''driver'' else JNull),
                          (''timestamp'', JNum (Fin (real_of_int 1700000000000 / 1000))),
                          (''status'', JStr ''PENDING'')]]"
    by blast
  then have "db' = [JObj [(''vehicleId'', JStr ''BUS12''), (''command'', JStr ''TRIGGER_ALARM''),
            (''driver'', JNull), (''timestamp'', JNum (Fin 1700000000)),
            (''status'', JStr ''PENDING'')]]"
    by (simp add: alarm_body_def)
  moreover have "get_prop honk_body ''command'' \<notin> set allowedCommands"
    by (simp add: route_defs)
  moreover have "get_prop alarm_body ''timestamp'' = JNum (Fin 5)"
    by (simp add: route_defs)
  ultimately show ?thesis
    using h a c siren_post_rule [OF h] by simp
qed

section \<open>The claims\<close>

text \<open>
  C1. The claim: a vehicle of the batch without any alert record is not drowsy,
  whatever the newest timestamp \<open>T_max\<close> of the batch is, also below 300. The code
  reads the missing entry of \<^verbatim>\<open>lastAlertTimes\<close> as instant 0 (line 108), so a batch
  whose newest timestamp is below 300 latches every such vehicle: one record of
  \<^verbatim>\<open>BUS12\<close> at instant 100 with \<^verbatim>\<open>alert: false\<close> gives \<^verbatim>\<open>isDrowsy = true\<close>.
\<close>

theorem C1_never_alerted_vehicle_latched_below_300:
  "\<forall>B. alert_times [sample ''BUS12'' (JBool False) 40 100] ''BUS12'' = {} \<and>
       T_max [sample ''BUS12'' (JBool False) 40 100] = 100 \<and>
       isDrowsy_of (processFleetData B [sample ''BUS12'' (JBool False) 40 100]) ''BUS12'' =
         Some True"
  by (simp add: fleet_defs alert_times_def T_max_def)

text \<open>
  C2, as stated, fails: the read of an acknowledgment compares nothing with the
  clock. After \<^verbatim>\<open>ACKNOWLEDGE\<close> at instant 0 (expiry 300000) and no sweep, or one
  sweep at 299999, the read is true at every later instant, 300001 included.
\<close>

theorem C2_counterexample:
  "acknowledged_read (dispatch_all (ack_reducer 0 Map.empty (ACKNOWLEDGE ''BUS12'')) []) ''BUS12'' \<and>
   acknowledged_read
     (dispatch_all (ack_reducer 0 Map.empty (ACKNOWLEDGE ''BUS12'')) [(299999, CLEANUP)]) ''BUS12'' \<and>
   ack_reducer 0 Map.empty (ACKNOWLEDGE ''BUS12'') ''BUS12'' = Some 300000 \<and>
   (300000 :: int) \<le> 300001"
  by (simp add: acknowledged_read_def ack_reducer_def)

text \<open>
  C2, amended: for a vehicle whose identifier is not a property name that every
  object inherits (such as \<^verbatim>\<open>constructor\<close>), \<^verbatim>\<open>ACKNOWLEDGE\<close> at an instant
  \<open>t \<ge> 0\<close> stores the expiry \<open>t\<close> + 5 minutes, and after any further actions
  that do not acknowledge the vehicle again the read is true exactly when every
  sweep among them ran before the expiry: the entry is hidden by the first
  \<^verbatim>\<open>CLEANUP\<close> that runs at or after the expiry, not by the passing of time.
\<close>

theorem C2_read_true_until_sweep_after_expiry:
  assumes "0 \<le> t" and "\<forall>e\<in>set evs. snd e \<noteq> ACKNOWLEDGE v" and "\<not> inherited v"
  shows "ack_reducer t state (ACKNOWLEDGE v) v = Some (t + 5 * 60 * 1000) \<and>
         (acknowledged_read (dispatch_all (ack_reducer t state (ACKNOWLEDGE v)) evs) v \<longleftrightarrow>
            (\<forall>e\<in>set evs. snd e = CLEANUP \<longrightarrow> fst e < t + 5 * 60 * 1000))"
  using ack_read [OF assms(1,2), of state] assms(3) by simp

text \<open>
  C2, witness: \<^verbatim>\<open>BUS12\<close> acknowledged at 1000, another vehicle at 2000; a sweep
  at 300999 keeps the entry, a further sweep at 301000 removes it.
\<close>

theorem C2_witness:
  "(0::int) \<le> 1000 \<and>
   list_all (\<lambda>e. snd e \<noteq> ACKNOWLEDGE ''BUS12'')
     [(2000 :: int, ACKNOWLEDGE ''BUS13''), (300999, CLEANUP), (301000, CLEANUP)] \<and>
   \<not> inherited ''BUS12'' \<and>
   acknowledged_read
     (dispatch_all (ack_reducer 1000 Map.empty (ACKNOWLEDGE ''BUS12''))
        [(2000, ACKNOWLEDGE ''BUS13''), (300999, CLEANUP)]) ''BUS12'' \<and>
   \<not> acknowledged_read
     (dispatch_all (ack_reducer 1000 Map.empty (ACKNOWLEDGE ''BUS12''))
        [(2000, ACKNOWLEDGE ''BUS13''), (300999, CLEANUP), (301000, CLEANUP)]) ''BUS12''"
proof -
  have i: "\<not> inherited ''BUS12''" by (simp add: inherited_def inherited_keys_def)
  have a: "\<forall>e\<in>set [(2000 :: int, ACKNOWLEDGE ''BUS13''), (300999, CLEANUP)].
             snd e \<noteq> ACKNOWLEDGE ''BUS12''" by simp
  have b: "\<forall>e\<in>set [(2000 :: int, ACKNOWLEDGE ''BUS13''), (300999, CLEANUP), (301000, CLEANUP)].
             snd e \<noteq> ACKNOWLEDGE ''BUS12''" by simp
  have t: "(0::int) \<le> 1000" by simp
  show ?thesis
    using i C2_read_true_until_sweep_after_expiry [OF t a i, of Map.empty]
      C2_read_true_until_sweep_after_expiry [OF t b i, of Map.empty]
    by simp
qed

text \<open>
  C3, as stated, fails for records of equal timestamp: the sort is stable, so of
  two records of \<^verbatim>\<open>BUS12\<close> at instant 1000 with speeds 10 and 20 the one that
  comes last in the input becomes the state of the vehicle.
\<close>

theorem C3_counterexample:
  "mset [sample ''BUS12'' JNull 10 1000, sample ''BUS12'' JNull 20 1000] =
     mset [sample ''BUS12'' JNull 20 1000, sample ''BUS12'' JNull 10 1000] \<and>
   (\<forall>B. map_sum id (map (\<lambda>s. speed (latest s)) \<circ> uniqueVehicles)
          (processFleetData B [sample ''BUS12'' JNull 10 1000, sample ''BUS12'' JNull 20 1000]) =
          Inr [20] \<and>
        map_sum id (map (\<lambda>s. speed (latest s)) \<circ> uniqueVehicles)
          (processFleetData B [sample ''BUS12'' JNull 20 1000, sample ''BUS12'' JNull 10 1000]) =
          Inr [10])"
  by (simp add: fleet_defs)

text \<open>
  C3, amended: when no two different records of the batch carry the same
  timestamp, every permutation of the input gives the same result of
  \<^verbatim>\<open>processFleetData\<close> (vehicles, statistics, history, or the same exception).
\<close>

theorem C3_permutation_invariant_for_distinct_timestamps:
  assumes "mset xs = mset ys" and "inj_on timestamp (set xs)"
  shows "processFleetData B xs = processFleetData B ys"
proof -
  have "sort_key timestamp xs = sort_key timestamp ys"
    using assms by (rule sort_key_eq_sort_key)
  moreover have "xs = [] \<longleftrightarrow> ys = []"
    using assms(1) by (metis mset_zero_iff)
  ultimately show ?thesis
    by (simp add: processFleetData_def)
qed

text \<open>C3, witness: two records at instants 1000 and 1001, in both orders.\<close>

theorem C3_witness:
  "mset [sample ''BUS12'' JNull 10 1000, sample ''BUS12'' (JBool True) 20 1001] =
     mset [sample ''BUS12'' (JBool True) 20 1001, sample ''BUS12'' JNull 10 1000] \<and>
   inj_on timestamp (set [sample ''BUS12'' JNull 10 1000, sample ''BUS12'' (JBool True) 20 1001]) \<and>
   (\<forall>B. processFleetData B [sample ''BUS12'' JNull 10 1000, sample ''BUS12'' (JBool True) 20 1001] =
        processFleetData B [sample ''BUS12'' (JBool True) 20 1001, sample ''BUS12'' JNull 10 1000])"
proof -
  have m: "mset [sample ''BUS12'' JNull 10 1000, sample ''BUS12'' (JBool True) 20 1001] =
     mset [sample ''BUS12'' (JBool True) 20 1001, sample ''BUS12'' JNull 10 1000]"
    by simp
  have i: "inj_on timestamp (set [sample ''BUS12'' JNull 10 1000, sample ''BUS12'' (JBool True) 20 1001])"
    by (simp add: sample_def)
  show ?thesis
    using m i C3_permutation_invariant_for_distinct_timestamps [OF m i] by blast
qed

text \<open>
  C4. The claim: the aggregation is total on every accepted record, a record
  without \<^verbatim>\<open>driver\<close> included. The route accepts such a payload (201, stored,
  with the warning of lines 32-38), and \<^verbatim>\<open>processFleetData\<close> on the stored record
  throws a \<^verbatim>\<open>TypeError\<close> at \<^verbatim>\<open>record.driver.id\<close> (line 123).
\<close>

theorem C4_accepted_record_without_driver_throws:
  "\<forall>conv now db B.
     data_post conv now accepting_store db no_driver_payload =
       \<lparr>resp = \<lparr>status = 201, message = ''Data saved successfully'',
                insertedId = Some (JStr ''65f0c0ffee'')\<rparr>,
        stored = db @ [no_driver_doc now], warned = True\<rparr> \<and>
     telemetry_of (no_driver_doc now) = Some (no_driver_record now) \<and>
     processFleetData B [no_driver_record now] = Inl TypeError"
  by (simp add: route_defs fleet_defs)

text \<open>
  C5, as stated, fails: a payload with \<^verbatim>\<open>vehicleId\<close> and a \<^verbatim>\<open>gps\<close> of finite
  coordinates but without \<^verbatim>\<open>speed\<close> is rejected with the missing-fields error
  (line 15), and nothing is stored.
\<close>

theorem C5_counterexample:
  "\<forall>conv now ins db.
     data_post conv now ins db no_speed_payload =
       \<lparr>resp = \<lparr>status = 400, message = ''Missing required vehicle data fields.'',
                insertedId = None\<rparr>,
        stored = db, warned = False\<rparr> \<and>
     truthy (get_prop no_speed_payload ''vehicleId'') \<and>
     Number conv (get_prop (get_prop no_speed_payload ''gps'') ''lat'') = Some (Fin 23.8103) \<and>
     Number conv (get_prop (get_prop no_speed_payload ''gps'') ''lng'') = Some (Fin 90.4125)"
  by (simp add: route_defs)

text \<open>
  C5, amended: the route answers with the missing-fields error exactly when the
  payload, its \<^verbatim>\<open>vehicleId\<close> or its \<^verbatim>\<open>gps\<close> is falsy or its \<^verbatim>\<open>speed\<close> is
  \<^verbatim>\<open>undefined\<close>; and a payload with a truthy \<^verbatim>\<open>vehicleId\<close>, a \<^verbatim>\<open>speed\<close> and a
  truthy \<^verbatim>\<open>gps\<close> whose \<^verbatim>\<open>lat\<close> and \<^verbatim>\<open>lng\<close> convert to finite numbers is stored
  and answered with 201 and the identifier of the store, whatever its other
  fields are, when the store accepts the insert.
\<close>

theorem C5_missing_field_exactly:
  "((status (resp (data_post conv now ins db data)) = 400 \<and>
     message (resp (data_post conv now ins db data)) = ''Missing required vehicle data fields.'') \<longleftrightarrow>
    (falsy data \<or> falsy (get_prop data ''vehicleId'') \<or> get_prop data ''speed'' = JUndefined \<or>
     falsy (get_prop data ''gps''))) \<and>
   (truthy (get_prop data ''vehicleId'') \<and> get_prop data ''speed'' \<noteq> JUndefined \<and>
    truthy (get_prop data ''gps'') \<and>
    Number conv (get_prop (get_prop data ''gps'') ''lat'') = Some (Fin lat) \<and>
    Number conv (get_prop (get_prop data ''gps'') ''lng'') = Some (Fin lng) \<and>
    (\<forall>d. ins d \<noteq> None) \<longrightarrow>
    (\<exists>doc i. resp (data_post conv now ins db data) =
                \<lparr>status = 201, message = ''Data saved successfully'', insertedId = Some i\<rparr> \<and>
             stored (data_post conv now ins db data) = db @ [doc] \<and>
             get_prop doc ''gps'' = JObj [(''lat'', JNum (Fin lat)), (''lng'', JNum (Fin lng))] \<and>
             (\<forall>k. k \<noteq> ''gps'' \<longrightarrow> k \<noteq> ''timestamp'' \<longrightarrow> get_prop doc k = get_prop data k)))"
proof (intro conjI impI)
  show "(status (resp (data_post conv now ins db data)) = 400 \<and>
     message (resp (data_post conv now ins db data)) = ''Missing required vehicle data fields.'') \<longleftrightarrow>
    (falsy data \<or> falsy (get_prop data ''vehicleId'') \<or> get_prop data ''speed'' = JUndefined \<or>
     falsy (get_prop data ''gps''))"
    by (rule data_post_missing)
next
  assume h: "truthy (get_prop data ''vehicleId'') \<and> get_prop data ''speed'' \<noteq> JUndefined \<and>
    truthy (get_prop data ''gps'') \<and>
    Number conv (get_prop (get_prop data ''gps'') ''lat'') = Some (Fin lat) \<and>
    Number conv (get_prop (get_prop data ''gps'') ''lng'') = Some (Fin lng) \<and>
    (\<forall>d. ins d \<noteq> None)"
  then obtain doc where doc: "data_post conv now ins db data =
           \<lparr>resp = \<lparr>status = 201, message = ''Data saved successfully'', insertedId = ins doc\<rparr>,
            stored = db @ [doc],
            warned = (falsy (get_prop data ''driver'') \<or>
                      falsy (get_prop (get_prop data ''driver'') ''id'') \<or>
                      falsy (get_prop (get_prop data ''driver'') ''name''))\<rparr>"
    and g: "get_prop doc ''gps'' = JObj [(''lat'', JNum (Fin lat)), (''lng'', JNum (Fin lng))]"
    and k: "\<forall>k. k \<noteq> ''gps'' \<longrightarrow> k \<noteq> ''timestamp'' \<longrightarrow> get_prop doc k = get_prop data k"
    using data_post_accepts [of data conv lat lng ins now db] by blast
  from h obtain i where "ins doc = Some i" by auto
  with doc g k show "\<exists>doc i. resp (data_post conv now ins db data) =
                \<lparr>status = 201, message = ''Data saved successfully'', insertedId = Some i\<rparr> \<and>
             stored (data_post conv now ins db data) = db @ [doc] \<and>
             get_prop doc ''gps'' = JObj [(''lat'', JNum (Fin lat)), (''lng'', JNum (Fin lng))] \<and>
             (\<forall>k. k \<noteq> ''gps'' \<longrightarrow> k \<noteq> ''timestamp'' \<longrightarrow> get_prop doc k = get_prop data k)"
    by auto
qed

text \<open>
  C5, witness: the payload without \<^verbatim>\<open>speed\<close> meets the condition of the error,
  the payload with \<^verbatim>\<open>speed\<close> the conditions of acceptance.
\<close>

theorem C5_witness:
  "\<forall>conv now db.
     get_prop no_speed_payload ''speed'' = JUndefined \<and>
     status (resp (data_post conv now accepting_store db no_speed_payload)) = 400 \<and>
     truthy (get_prop zero_timestamp_payload ''vehicleId'') \<and>
     get_prop zero_timestamp_payload ''speed'' \<noteq> JUndefined \<and>
     truthy (get_prop zero_timestamp_payload ''gps'') \<and>
     Number conv (get_prop (get_prop zero_timestamp_payload ''gps'') ''lat'') = Some (Fin 23.8103) \<and>
     Number conv (get_prop (get_prop zero_timestamp_payload ''gps'') ''lng'') = Some (Fin 90.4125) \<and>
     (\<forall>d. accepting_store d \<noteq> None) \<and>
     status (resp (data_post conv now accepting_store db zero_timestamp_payload)) = 201 \<and>
     length (stored (data_post conv now accepting_store db zero_timestamp_payload)) =
       Suc (length db)"
proof (intro allI)
  fix conv :: "jsval \<Rightarrow> jsnum option" and now :: int and db :: "jsval list"
  have u: "get_prop no_speed_payload ''speed'' = JUndefined"
    by (simp add: route_defs)
  have h: "truthy (get_prop zero_timestamp_payload ''vehicleId'') \<and>
     get_prop zero_timestamp_payload ''speed'' \<noteq> JUndefined \<and>
     truthy (get_prop zero_timestamp_payload ''gps'') \<and>
     Number conv (get_prop (get_prop zero_timestamp_payload ''gps'') ''lat'') = Some (Fin 23.8103) \<and>
     Number conv (get_prop (get_prop zero_timestamp_payload ''gps'') ''lng'') = Some (Fin 90.4125) \<and>
     (\<forall>d. accepting_store d \<noteq> None)"
    by (simp add: route_defs)
  from C5_missing_field_exactly [of conv now accepting_store db no_speed_payload] u
  have a: "status (resp (data_post conv now accepting_store db no_speed_payload)) = 400"
    by blast
  from C5_missing_field_exactly
         [of conv now accepting_store db zero_timestamp_payload "23.8103" "90.4125"] h
  obtain doc i where
    "resp (data_post conv now accepting_store db zero_timestamp_payload) =
       \<lparr>status = 201, message = ''Data saved successfully'', insertedId = Some i\<rparr>"
    and "stored (data_post conv now accepting_store db zero_timestamp_payload) = db @ [doc]"
    by blast
  with u h a show
    "get_prop no_speed_payload ''speed'' = JUndefined \<and>
     status (resp (data_post conv now accepting_store db no_speed_payload)) = 400 \<and>
     truthy (get_prop zero_timestamp_payload ''vehicleId'') \<and>
     get_prop zero_timestamp_payload ''speed'' \<noteq> JUndefined \<and>
     truthy (get_prop zero_timestamp_payload ''gps'') \<and>
     Number conv (get_prop (get_prop zero_timestamp_payload ''gps'') ''lat'') = Some (Fin 23.8103) \<and>
     Number conv (get_prop (get_prop zero_timestamp_payload ''gps'') ''lng'') = Some (Fin 90.4125) \<and>
     (\<forall>d. accepting_store d \<noteq> None) \<and>
     status (resp (data_post conv now accepting_store db zero_timestamp_payload)) = 201 \<and>
     length (stored (data_post conv now accepting_store db zero_timestamp_payload)) =
       Suc (length db)"
    by simp
qed

text \<open>
  C6. The claim: \<^verbatim>\<open>totalHistoricalAlerts\<close> counts the records whose alert is
  \<^verbatim>\<open>true\<close>, \<^verbatim>\<open>"Sleeping"\<close> or \<^verbatim>\<open>"true"\<close>. The filter of lines 140-142 leaves the
  string \<^verbatim>\<open>"true"\<close> out, which the two passes (lines 93-96 and 113-115) take for
  an alert: one record with \<^verbatim>\<open>alert: "true"\<close> makes its vehicle drowsy and is
  counted as no alert.
\<close>

theorem C6_string_true_not_counted:
  "\<forall>B. isAlertRecord (sample ''BUS12'' (JStr ''true'') 40 1000) \<and>
       isDrowsy_of (processFleetData B [sample ''BUS12'' (JStr ''true'') 40 1000]) ''BUS12'' =
         Some True \<and>
       map_sum id read_totalHistoricalAlerts
         (processFleetData B [sample ''BUS12'' (JStr ''true'') 40 1000]) = Inr (Some 0)"
  by (simp add: fleet_defs)

text \<open>
  C7. The claim: a vehicle whose most recent record is no alert and whose last
  alert record is at \<open>T_max - 299\<close> is drowsy. It holds for every identifier but
  one (lemma \<open>latch_rule\<close>): \<^verbatim>\<open>lastAlertTimes\<close> is a plain object, the assignment
  of line 98 under the key \<^verbatim>\<open>__proto__\<close> stores nothing, the read of line 108
  yields the prototype object and the difference of line 109 is NaN. The vehicle
  \<^verbatim>\<open>__proto__\<close> with an alert at 1000 and a record without alert at 1299 is not
  drowsy; the same two records of \<^verbatim>\<open>BUS12\<close> are.
\<close>

theorem C7_proto_vehicle_not_latched:
  "\<forall>B. alert_times [sample ''__proto__'' (JBool True) 40 1000,
                     sample ''__proto__'' (JBool False) 40 1299] ''__proto__'' = {1000} \<and>
       T_max [sample ''__proto__'' (JBool True) 40 1000,
              sample ''__proto__'' (JBool False) 40 1299] - 299 = 1000 \<and>
       isDrowsy_of (processFleetData B [sample ''__proto__'' (JBool True) 40 1000,
                                        sample ''__proto__'' (JBool False) 40 1299])
         ''__proto__'' = Some False \<and>
       isDrowsy_of (processFleetData B [sample ''BUS12'' (JBool True) 40 1000,
                                        sample ''BUS12'' (JBool False) 40 1299])
         ''BUS12'' = Some True"
  by (auto simp add: fleet_defs alert_times_def T_max_def)




text \<open>
  C9. The claim: a submission whose command is absent is rejected with a
  validation error. The body \<^verbatim>\<open>null\<close> (the JSON text \<^verbatim>\<open>null\<close>) has no command;
  the destructuring of line 10 throws on it before the validation of lines 13-17
  is reached, and the \<^verbatim>\<open>catch\<close> answers 500 \<^verbatim>\<open>Internal Server Error\<close>. Nothing is
  stored. The telemetry route guards this case (\<^verbatim>\<open>!data\<close>) and answers 400. For
  every other body the claim holds (lemma \<open>siren_post_rule\<close>).
\<close>

theorem C9_null_body_is_answered_with_500:
  "\<forall>now ins db.
     get_prop JNull ''command'' \<notin> set allowedCommands \<and>
     siren_post now ins db JNull =
       (\<lparr>status = 500, message = ''Internal Server Error'', insertedId = None\<rparr>, db) \<and>
     (\<forall>conv. resp (data_post conv now ins db JNull) =
        \<lparr>status = 400, message = ''Missing required vehicle data fields.'',
         insertedId = None\<rparr>)"
  by (simp add: route_defs)



end
